theory Spec2Isabelle
  imports Complex_Main
begin

section \<open>Arrays, errors and the numerical library\<close>

text \<open>
  The calibrators of \<^verbatim>\<open>chemprop/uncertainty/uncertainty_calibrator.py\<close> compute on
  numpy arrays of shape (examples, tasks). An array of that shape is a list of rows here,
  and its entries are real numbers: float64 is idealised, so rounding, overflow and the
  values inf and nan are outside the model. Theorems that depend on a quotient name the
  inputs whose divisor is not zero.
\<close>

type_synonym matrix = "real list list"

datatype error =
    ValueError string
  | NotImplementedError string
  | AttributeError string
  | IndexError string

text \<open>
  What \<^verbatim>\<open>self.scaling\<close> can hold: a numpy scalar (shape \<^verbatim>\<open>()\<close>) or a
  two-dimensional array.
\<close>

datatype np_value = Scalar real | Array2 matrix

definition nrows :: "matrix \<Rightarrow> nat" where
  "nrows m = length m"

definition ncols :: "matrix \<Rightarrow> nat" where
  "ncols m = (case m of [] \<Rightarrow> 0 | r # _ \<Rightarrow> length r)"

text \<open>A well-formed (n, t) array: n rows, each of t entries, neither axis empty.\<close>

definition is_matrix :: "nat \<Rightarrow> nat \<Rightarrow> matrix \<Rightarrow> bool" where
  "is_matrix n t m \<longleftrightarrow> 0 < n \<and> 0 < t \<and> length m = n \<and> list_all (\<lambda>r. length r = t) m"

definition mat_all :: "(real \<Rightarrow> bool) \<Rightarrow> matrix \<Rightarrow> bool" where
  "mat_all P m = list_all (list_all P) m"

fun shape :: "np_value \<Rightarrow> nat list" where
  "shape (Scalar x) = []"
| "shape (Array2 m) = [nrows m, ncols m]"



subsection \<open>Broadcasting\<close>

text \<open>
  numpy's rule for one axis: equal lengths, or one of them is 1 and is stretched. A pair
  of arrays that does not fit raises \<^verbatim>\<open>ValueError: operands could not be broadcast
  together with shapes ...\<close>; the message is kept without the shapes.
\<close>

definition bdim :: "nat \<Rightarrow> nat \<Rightarrow> nat option" where
  "bdim a b = (if a = b then Some a else if a = 1 then Some b else if b = 1 then Some a else None)"

definition stretch :: "nat \<Rightarrow> 'a list \<Rightarrow> 'a list" where
  "stretch n xs = (if length xs = n then xs else replicate n (hd xs))"

definition np_binop :: "(real \<Rightarrow> real \<Rightarrow> real) \<Rightarrow> matrix \<Rightarrow> matrix \<Rightarrow> error + matrix" where
  "np_binop f a b =
     (case bdim (nrows a) (nrows b) of
        None \<Rightarrow> Inl (ValueError ''operands could not be broadcast together'')
      | Some n \<Rightarrow>
          (case bdim (ncols a) (ncols b) of
             None \<Rightarrow> Inl (ValueError ''operands could not be broadcast together'')
           | Some t \<Rightarrow>
               Inr (map2 (\<lambda>ra rb. map2 f (stretch t ra) (stretch t rb))
                      (stretch n a) (stretch n b))))"

definition np_map :: "(real \<Rightarrow> real) \<Rightarrow> matrix \<Rightarrow> matrix" where
  "np_map f m = map (map f) m"

definition np_sqrt :: "matrix \<Rightarrow> matrix" where
  "np_sqrt m = np_map sqrt m"


subsection \<open>Reductions along axis 0\<close>

definition column :: "matrix \<Rightarrow> nat \<Rightarrow> real list" where
  "column m j = map (\<lambda>r. r ! j) m"

definition columns :: "matrix \<Rightarrow> real list list" where
  "columns m = map (column m) [0..<ncols m]"

definition np_sum_axis0 :: "matrix \<Rightarrow> real list" where
  "np_sum_axis0 m = map sum_list (columns m)"

definition mean :: "real list \<Rightarrow> real" where
  "mean xs = sum_list xs / real (length xs)"

text \<open>\<^verbatim>\<open>np.std\<close> with its default \<^verbatim>\<open>ddof=0\<close>.\<close>

definition np_std :: "real list \<Rightarrow> real" where
  "np_std xs = sqrt (mean (map (\<lambda>x. \<bar>x - mean xs\<bar> ^ 2) xs))"

text \<open>\<^verbatim>\<open>np.std(a, axis=0, keepdims=True)\<close>: shape (1, tasks).\<close>

definition np_std_axis0_keepdims :: "matrix \<Rightarrow> matrix" where
  "np_std_axis0_keepdims m = [map np_std (columns m)]"

text \<open>
  \<^verbatim>\<open>np.percentile\<close> with its default linear interpolation between the two nearest
  order statistics; a percentile outside [0, 100] raises.
\<close>

definition percentile1 :: "real list \<Rightarrow> real \<Rightarrow> real" where
  "percentile1 xs q =
     (let s = sort xs;
          idx = q / 100 * (real (length xs) - 1);
          lo = nat \<lfloor>idx\<rfloor>;
          hi = min (lo + 1) (length xs - 1)
      in s ! lo + (s ! hi - s ! lo) * (idx - real lo))"

definition np_percentile_axis0_keepdims :: "matrix \<Rightarrow> real \<Rightarrow> error + matrix" where
  "np_percentile_axis0_keepdims m q =
     (if q < 0 \<or> 100 < q then Inl (ValueError ''Percentiles must be in the range [0, 100]'')
      else Inr [map (\<lambda>c. percentile1 c q) (columns m)])"

subsection \<open>scipy\<close>

text \<open>
  The functions imported from scipy are parameters of the model.
  \<^verbatim>\<open>fmin(func, x0)\<close> flattens \<^verbatim>\<open>x0\<close>, calls \<^verbatim>\<open>func\<close> on one-dimensional arrays and
  returns the one-dimensional \<^verbatim>\<open>xopt\<close> (or raises); \<^verbatim>\<open>t_pdf x df scale\<close> and
  \<^verbatim>\<open>t_ppf q df\<close> are \<^verbatim>\<open>scipy.stats.t.pdf\<close> and \<^verbatim>\<open>scipy.stats.t.ppf\<close>.
\<close>

record scipy =
  fmin :: "(real list \<Rightarrow> error + real list) \<Rightarrow> matrix \<Rightarrow> error + real list"
  erfinv :: "real \<Rightarrow> real"
  t_pdf :: "real \<Rightarrow> real \<Rightarrow> real \<Rightarrow> real"
  t_ppf :: "real \<Rightarrow> real \<Rightarrow> real"

section \<open>The calibrator object\<close>

record UncertaintyPredictor =
  uncal_preds :: matrix
  uncal_vars :: matrix

record MoleculeDataset =
  targets :: matrix

datatype calibrator_class = ZScalingCalibrator | TScalingCalibrator | ZelikmanCalibrator

text \<open>
  The attributes of a calibrator. The first five are assigned at the start of
  \<^verbatim>\<open>__init__\<close>; an attribute that has not been assigned yet is \<open>None\<close>.
\<close>

record calibrator =
  cls :: calibrator_class
  calibration_data :: MoleculeDataset
  regression_calibrator_metric :: string
  interval_percentile :: int
  dataset_type :: string
  num_models :: int
  calibration_predictor :: "UncertaintyPredictor option"
  scaling :: "np_value option"
  label :: "string option"

text \<open>Python's \<^verbatim>\<open>str\<close> of an integer, as an f-string formats it.\<close>

function str_nat :: "nat \<Rightarrow> string" where
  "str_nat n = (if n < 10 then [''0123456789'' ! n]
                else str_nat (n div 10) @ [''0123456789'' ! (n mod 10)])"
  by pat_completeness auto
termination
  by (relation "measure id") auto

declare str_nat.simps [simp del]

definition str_int :: "int \<Rightarrow> string" where
  "str_int i = (if i < 0 then CHR ''-'' # str_nat (nat (- i)) else str_nat (nat i))"

section \<open>Validation\<close>

definition UncertaintyCalibrator_raise_argument_errors :: "calibrator \<Rightarrow> error + unit" where
  "UncertaintyCalibrator_raise_argument_errors self = Inr ()"

definition ZScalingCalibrator_raise_argument_errors :: "calibrator \<Rightarrow> error + unit" where
  "ZScalingCalibrator_raise_argument_errors self =
     (case UncertaintyCalibrator_raise_argument_errors self of
        Inl e \<Rightarrow> Inl e
      | Inr _ \<Rightarrow>
          if dataset_type self \<noteq> ''regression''
          then Inl (ValueError ''Z Score Scaling is only compatible with regression datasets.'')
          else Inr ())"

definition TScalingCalibrator_raise_argument_errors :: "calibrator \<Rightarrow> error + unit" where
  "TScalingCalibrator_raise_argument_errors self =
     (case UncertaintyCalibrator_raise_argument_errors self of
        Inl e \<Rightarrow> Inl e
      | Inr _ \<Rightarrow>
          if dataset_type self \<noteq> ''regression''
          then Inl (ValueError ''T Score Scaling is only compatible with regression datasets.'')
          else Inr ())"

definition ZelikmanCalibrator_raise_argument_errors :: "calibrator \<Rightarrow> error + unit" where
  "ZelikmanCalibrator_raise_argument_errors self =
     (case UncertaintyCalibrator_raise_argument_errors self of
        Inl e \<Rightarrow> Inl e
      | Inr _ \<Rightarrow>
          if dataset_type self \<noteq> ''regression''
          then Inl (ValueError ''Crude Scaling is only compatible with regression datasets.'')
          else Inr ())"

text \<open>\<^verbatim>\<open>self.raise_argument_errors()\<close> resolves to the method of the object's class.\<close>

definition raise_argument_errors :: "calibrator \<Rightarrow> error + unit" where
  "raise_argument_errors self =
     (case cls self of
        ZScalingCalibrator \<Rightarrow> ZScalingCalibrator_raise_argument_errors self
      | TScalingCalibrator \<Rightarrow> TScalingCalibrator_raise_argument_errors self
      | ZelikmanCalibrator \<Rightarrow> ZelikmanCalibrator_raise_argument_errors self)"

section \<open>Fitting\<close>

text \<open>
  The closure \<^verbatim>\<open>objective\<close> of \<^verbatim>\<open>ZScalingCalibrator.calibrate\<close>: the Gaussian negative
  log-likelihood, summed over the examples of every task. A one-dimensional argument
  broadcasts against the (examples, tasks) arrays as one row.
\<close>

definition ZScaling_objective :: "matrix \<Rightarrow> matrix \<Rightarrow> real list \<Rightarrow> error + real list" where
  "ZScaling_objective vars errors scaler_values =
     (case np_binop (*) vars [map (\<lambda>s. s ^ 2) scaler_values] of
        Inl e \<Rightarrow> Inl e
      | Inr scaled_vars \<Rightarrow>
          (case np_binop (/) (np_map (\<lambda>x. x ^ 2) errors) (np_map (\<lambda>v. 2 * v) scaled_vars) of
             Inl e \<Rightarrow> Inl e
           | Inr quad \<Rightarrow>
               (case np_binop (+) (np_map (\<lambda>v. ln (2 * pi * v) / 2) scaled_vars) quad of
                  Inl e \<Rightarrow> Inl e
                | Inr nll \<Rightarrow> Inr (np_sum_axis0 nll))))"

definition ZScalingCalibrator_calibrate :: "scipy \<Rightarrow> calibrator \<Rightarrow> error + calibrator" where
  "ZScalingCalibrator_calibrate lib self =
     (case calibration_predictor self of
        None \<Rightarrow> Inl (AttributeError ''calibration_predictor'')
      | Some cp \<Rightarrow>
          (case np_binop (-) (uncal_preds cp) (targets (calibration_data self)) of
             Inl e \<Rightarrow> Inl e
           | Inr errors \<Rightarrow>
               (case np_binop (/) errors (np_sqrt (uncal_vars cp)) of
                  Inl e \<Rightarrow> Inl e
                | Inr zscore_preds \<Rightarrow>
                    (case fmin lib (ZScaling_objective (uncal_vars cp) errors)
                            (np_std_axis0_keepdims zscore_preds) of
                       Inl e \<Rightarrow> Inl e
                     | Inr sol \<Rightarrow>
                         (case sol of
                            [] \<Rightarrow> Inl (IndexError ''index 0 is out of bounds'')
                          | stdev_scaling # _ \<Rightarrow>
                              if regression_calibrator_metric self = ''stdev''
                              then Inr (self\<lparr>scaling := Some (Scalar stdev_scaling)\<rparr>)
                              else Inr (self\<lparr>scaling := Some (Scalar
                                     (stdev_scaling
                                        * erfinv lib (real_of_int (interval_percentile self) / 100)
                                        * sqrt 2))\<rparr>))))))"

text \<open>
  The closure \<^verbatim>\<open>objective\<close> of \<^verbatim>\<open>TScalingCalibrator.calibrate\<close>: the negative
  log-likelihood under scipy's Student-t density.
\<close>

definition TScaling_objective ::
  "scipy \<Rightarrow> real \<Rightarrow> matrix \<Rightarrow> matrix \<Rightarrow> real list \<Rightarrow> error + real list" where
  "TScaling_objective lib df std_error_of_mean errors scaler_values =
     (case np_binop (*) std_error_of_mean [scaler_values] of
        Inl e \<Rightarrow> Inl e
      | Inr scaled_std \<Rightarrow>
          (case np_binop (\<lambda>x s. t_pdf lib x df s) errors scaled_std of
             Inl e \<Rightarrow> Inl e
           | Inr likelihood \<Rightarrow> Inr (np_sum_axis0 (np_map (\<lambda>l. - 1 * ln l) likelihood))))"

definition TScalingCalibrator_calibrate :: "scipy \<Rightarrow> calibrator \<Rightarrow> error + calibrator" where
  "TScalingCalibrator_calibrate lib self =
     (case calibration_predictor self of
        None \<Rightarrow> Inl (AttributeError ''calibration_predictor'')
      | Some cp \<Rightarrow>
          (let std_error_of_mean =
                 np_map (\<lambda>v. sqrt (v / real_of_int (num_models self - 1))) (uncal_vars cp)
           in case np_binop (-) (uncal_preds cp) (targets (calibration_data self)) of
                Inl e \<Rightarrow> Inl e
              | Inr errors \<Rightarrow>
                  (case np_binop (/) errors std_error_of_mean of
                     Inl e \<Rightarrow> Inl e
                   | Inr tscore_preds \<Rightarrow>
                       (case fmin lib
                               (TScaling_objective lib (real_of_int (num_models self - 1))
                                  std_error_of_mean errors)
                               (np_std_axis0_keepdims tscore_preds) of
                          Inl e \<Rightarrow> Inl e
                        | Inr sol \<Rightarrow>
                            (case sol of
                               [] \<Rightarrow> Inl (IndexError ''index 0 is out of bounds'')
                             | stdev_scaling # _ \<Rightarrow>
                                 if regression_calibrator_metric self = ''stdev''
                                 then Inr (self\<lparr>scaling := Some (Scalar stdev_scaling)\<rparr>)
                                 else Inr (self\<lparr>scaling := Some (Scalar
                                        (stdev_scaling
                                           * t_ppf lib
                                               ((real_of_int (interval_percentile self) / 100 + 1) / 2)
                                               (real_of_int (num_models self - 1))))\<rparr>))))))"

definition ZelikmanCalibrator_calibrate :: "calibrator \<Rightarrow> error + calibrator" where
  "ZelikmanCalibrator_calibrate self =
     (case calibration_predictor self of
        None \<Rightarrow> Inl (AttributeError ''calibration_predictor'')
      | Some cp \<Rightarrow>
          (case np_binop (-) (uncal_preds cp) (targets (calibration_data self)) of
             Inl e \<Rightarrow> Inl e
           | Inr diff \<Rightarrow>
               (case np_binop (/) (np_map abs diff) (np_sqrt (uncal_vars cp)) of
                  Inl e \<Rightarrow> Inl e
                | Inr abs_zscore_preds \<Rightarrow>
                    (case np_percentile_axis0_keepdims abs_zscore_preds
                            (real_of_int (interval_percentile self)) of
                       Inl e \<Rightarrow> Inl e
                     | Inr interval_scaling \<Rightarrow>
                         Inr (self\<lparr>scaling := Some (Array2 interval_scaling)\<rparr>)))))"

definition calibrate :: "scipy \<Rightarrow> calibrator \<Rightarrow> error + calibrator" where
  "calibrate lib self =
     (case cls self of
        ZScalingCalibrator \<Rightarrow> ZScalingCalibrator_calibrate lib self
      | TScalingCalibrator \<Rightarrow> TScalingCalibrator_calibrate lib self
      | ZelikmanCalibrator \<Rightarrow> ZelikmanCalibrator_calibrate self)"

section \<open>Applying a fitted calibrator\<close>






section \<open>Construction\<close>

text \<open>
  \<^verbatim>\<open>uncertainty_predictor_builder\<close> lives in another module; it is a parameter, called
  with (test data, models, scalers, dataset type, batch size, number of workers, loss
  function, uncertainty method), and may raise.

  A constructor either returns the object or raises; \<open>Failed e self\<close> keeps the
  attributes the object had when \<open>e\<close> was raised.
\<close>

type_synonym ('m, 's) predictor_builder =
  "MoleculeDataset \<Rightarrow> 'm list \<Rightarrow> 's list \<Rightarrow> string \<Rightarrow> int \<Rightarrow> int \<Rightarrow> string \<Rightarrow> string
     \<Rightarrow> error + UncertaintyPredictor"

datatype construction = Constructed calibrator | Failed error calibrator

definition UncertaintyCalibrator_init ::
  "scipy \<Rightarrow> ('m, 's) predictor_builder \<Rightarrow> calibrator_class \<Rightarrow> string \<Rightarrow> int \<Rightarrow> string
     \<Rightarrow> MoleculeDataset \<Rightarrow> 'm list \<Rightarrow> 's list \<Rightarrow> string \<Rightarrow> string \<Rightarrow> int \<Rightarrow> int
     \<Rightarrow> construction" where
  "UncertaintyCalibrator_init lib upb c um ip rcm cdata models scalers dt lf bs nw =
     (let self = \<lparr>cls = c, calibration_data = cdata, regression_calibrator_metric = rcm,
                  interval_percentile = ip, dataset_type = dt,
                  num_models = int (length models), calibration_predictor = None,
                  scaling = None, label = None\<rparr>
      in case raise_argument_errors self of
           Inl e \<Rightarrow> Failed e self
         | Inr _ \<Rightarrow>
             (case upb cdata models scalers dt bs nw lf um of
                Inl e \<Rightarrow> Failed e self
              | Inr p \<Rightarrow>
                  (case calibrate lib (self\<lparr>calibration_predictor := Some p\<rparr>) of
                     Inl e \<Rightarrow> Failed e (self\<lparr>calibration_predictor := Some p\<rparr>)
                   | Inr self' \<Rightarrow> Constructed self')))"

definition ZScalingCalibrator_init ::
  "scipy \<Rightarrow> ('m, 's) predictor_builder \<Rightarrow> string \<Rightarrow> int \<Rightarrow> string
     \<Rightarrow> MoleculeDataset \<Rightarrow> 'm list \<Rightarrow> 's list \<Rightarrow> string \<Rightarrow> string \<Rightarrow> int \<Rightarrow> int
     \<Rightarrow> construction" where
  "ZScalingCalibrator_init lib upb um ip rcm cdata models scalers dt lf bs nw =
     (case UncertaintyCalibrator_init lib upb ZScalingCalibrator um ip rcm cdata models scalers
             dt lf bs nw of
        Failed e self \<Rightarrow> Failed e self
      | Constructed self \<Rightarrow>
          if regression_calibrator_metric self = ''stdev''
          then Constructed (self\<lparr>label := Some (um @ ''_zscaling_stdev'')\<rparr>)
          else Constructed
                 (self\<lparr>label := Some (um @ ''_zscaling_'' @ str_int ip @ ''interval'')\<rparr>))"

definition TScalingCalibrator_init ::
  "scipy \<Rightarrow> ('m, 's) predictor_builder \<Rightarrow> string \<Rightarrow> int \<Rightarrow> string
     \<Rightarrow> MoleculeDataset \<Rightarrow> 'm list \<Rightarrow> 's list \<Rightarrow> string \<Rightarrow> string \<Rightarrow> int \<Rightarrow> int
     \<Rightarrow> construction" where
  "TScalingCalibrator_init lib upb um ip rcm cdata models scalers dt lf bs nw =
     (case UncertaintyCalibrator_init lib upb TScalingCalibrator um ip rcm cdata models scalers
             dt lf bs nw of
        Failed e self \<Rightarrow> Failed e self
      | Constructed self \<Rightarrow>
          if regression_calibrator_metric self = ''stdev''
          then Constructed (self\<lparr>label := Some (um @ ''_tscaling_stdev'')\<rparr>)
          else Constructed
                 (self\<lparr>label := Some (um @ ''_tscaling_'' @ str_int ip @ ''interval'')\<rparr>))"

definition ZelikmanCalibrator_init ::
  "scipy \<Rightarrow> ('m, 's) predictor_builder \<Rightarrow> string \<Rightarrow> int \<Rightarrow> string
     \<Rightarrow> MoleculeDataset \<Rightarrow> 'm list \<Rightarrow> 's list \<Rightarrow> string \<Rightarrow> string \<Rightarrow> int \<Rightarrow> int
     \<Rightarrow> construction" where
  "ZelikmanCalibrator_init lib upb um ip rcm cdata models scalers dt lf bs nw =
     (case UncertaintyCalibrator_init lib upb ZelikmanCalibrator um ip rcm cdata models scalers
             dt lf bs nw of
        Failed e self \<Rightarrow> Failed e self
      | Constructed self \<Rightarrow>
          Constructed (self\<lparr>label := Some (um @ ''_zelikman_'' @ str_int ip @ ''interval'')\<rparr>))"

section \<open>The builder\<close>

definition supported_calibrators :: "(string \<times> calibrator_class) list" where
  "supported_calibrators =
     [(''zscaling'', ZScalingCalibrator),
      (''tscaling'', TScalingCalibrator),
      (''zelikman_interval'', ZelikmanCalibrator)]"

text \<open>
  The f-string of the error message: \<^verbatim>\<open>None\<close> is formatted as \<^verbatim>\<open>None\<close>, a string as
  itself, and the keys of the registry as \<^verbatim>\<open>dict_keys([...])\<close> with the \<^verbatim>\<open>repr\<close> of
  each key.
\<close>

definition format_method :: "string option \<Rightarrow> string" where
  "format_method m = (case m of None \<Rightarrow> ''None'' | Some s \<Rightarrow> s)"

fun join_comma :: "string list \<Rightarrow> string" where
  "join_comma [] = []"
| "join_comma [x] = x"
| "join_comma (x # y # ys) = x @ '', '' @ join_comma (y # ys)"

definition format_keys :: "(string \<times> calibrator_class) list \<Rightarrow> string" where
  "format_keys d =
     ''dict_keys(['' @ join_comma (map (\<lambda>(k, _). [CHR 0x27] @ k @ [CHR 0x27]) d) @ ''])''"

text \<open>The call \<^verbatim>\<open>calibrator_class(...)\<close>: the constructor of the class looked up.\<close>

definition construct ::
  "calibrator_class \<Rightarrow> scipy \<Rightarrow> ('m, 's) predictor_builder \<Rightarrow> string \<Rightarrow> int \<Rightarrow> string
     \<Rightarrow> MoleculeDataset \<Rightarrow> 'm list \<Rightarrow> 's list \<Rightarrow> string \<Rightarrow> string \<Rightarrow> int \<Rightarrow> int
     \<Rightarrow> construction" where
  "construct c lib upb um ip rcm cdata models scalers dt lf bs nw =
     (case c of
        ZScalingCalibrator \<Rightarrow>
          ZScalingCalibrator_init lib upb um ip rcm cdata models scalers dt lf bs nw
      | TScalingCalibrator \<Rightarrow>
          TScalingCalibrator_init lib upb um ip rcm cdata models scalers dt lf bs nw
      | ZelikmanCalibrator \<Rightarrow>
          ZelikmanCalibrator_init lib upb um ip rcm cdata models scalers dt lf bs nw)"

definition uncertainty_calibrator_builder ::
  "scipy \<Rightarrow> ('m, 's) predictor_builder \<Rightarrow> string option \<Rightarrow> string \<Rightarrow> string \<Rightarrow> int
     \<Rightarrow> MoleculeDataset \<Rightarrow> 'm list \<Rightarrow> 's list \<Rightarrow> string \<Rightarrow> string \<Rightarrow> int \<Rightarrow> int
     \<Rightarrow> error + calibrator" where
  "uncertainty_calibrator_builder lib upb calibration_method um rcm ip cdata models scalers
       dt lf bs nw =
     (let calibration_method =
            (if calibration_method = None
             then (if dt = ''regression''
                   then (if rcm = ''stdev'' then Some ''zscaling''
                         else Some ''zelikman_interval'')
                   else calibration_method)
             else calibration_method);
          calibrator_class =
            (case calibration_method of
               None \<Rightarrow> None
             | Some name \<Rightarrow> map_of supported_calibrators name)
      in case calibrator_class of
           None \<Rightarrow>
             Inl (NotImplementedError
                    (''Calibrator type '' @ format_method calibration_method
                       @ '' is not currently supported. Avalable options are: ''
                       @ format_keys supported_calibrators))
         | Some c \<Rightarrow>
             (case construct c lib upb um ip rcm cdata models scalers dt lf bs nw of
                Failed e _ \<Rightarrow> Inl e
              | Constructed calibrator \<Rightarrow> Inr calibrator))"

section \<open>The stated quantile and sample inputs\<close>

text \<open>
  The scaling that the specification describes for the empirical-quantile strategy, task by
  task: the percentile, over the calibration examples \<open>i\<close>, of
  \<open>|prediction - target| / sqrt(raw variance)\<close>.
\<close>

definition abs_zscores_of_task :: "matrix \<Rightarrow> matrix \<Rightarrow> matrix \<Rightarrow> nat \<Rightarrow> real list" where
  "abs_zscores_of_task preds tgts vars t =
     map (\<lambda>i. \<bar>preds ! i ! t - tgts ! i ! t\<bar> / sqrt (vars ! i ! t)) [0..<length preds]"

definition empirical_quantile_scaling ::
  "matrix \<Rightarrow> matrix \<Rightarrow> matrix \<Rightarrow> int \<Rightarrow> nat \<Rightarrow> real list" where
  "empirical_quantile_scaling preds tgts vars p T =
     map (\<lambda>t. percentile1 (abs_zscores_of_task preds tgts vars t) (real_of_int p)) [0..<T]"

text \<open>
  Values for the parameters, to run the model on concrete inputs: an optimiser that stops
  at its flattened starting point, simple functions in place of scipy's special functions,
  and a predictor builder that returns a given predictor.
\<close>

definition stub_scipy :: scipy where
  "stub_scipy = \<lparr>fmin = (\<lambda>objective x0. Inr (concat x0)), erfinv = (\<lambda>x. x),
                  t_pdf = (\<lambda>x df s. 1), t_ppf = (\<lambda>q df. q)\<rparr>"

definition const_builder :: "UncertaintyPredictor \<Rightarrow> ('m, 's) predictor_builder" where
  "const_builder p = (\<lambda>_ _ _ _ _ _ _ _. Inr p)"


text \<open>
  A calibration set of two examples and two tasks, the object as \<^verbatim>\<open>__init__\<close> hands it
  to \<^verbatim>\<open>calibrate\<close> for an ensemble of two models, an evaluation predictor of one
  example, and a calibration set of one task.
\<close>

definition sample_predictor :: UncertaintyPredictor where
  "sample_predictor = \<lparr>uncal_preds = [[1, 2], [3, 6]], uncal_vars = [[1, 1], [1, 1]]\<rparr>"

definition sample_data :: MoleculeDataset where
  "sample_data = \<lparr>targets = [[0, 0], [0, 0]]\<rparr>"

definition sample_self :: "calibrator_class \<Rightarrow> string \<Rightarrow> calibrator" where
  "sample_self c m =
     \<lparr>cls = c, calibration_data = sample_data, regression_calibrator_metric = m,
      interval_percentile = 50, dataset_type = ''regression'', num_models = 2,
      calibration_predictor = Some sample_predictor, scaling = None, label = None\<rparr>"





section \<open>The builder's choices and errors\<close>

lemma format_keys_supported:
  "format_keys supported_calibrators =
     ''dict_keys(['zscaling', 'tscaling', 'zelikman_interval'])''"
  by (simp add: format_keys_def supported_calibrators_def)

lemma map_of_supported_None:
  "name \<notin> {''zscaling'', ''tscaling'', ''zelikman_interval''} \<Longrightarrow>
     map_of supported_calibrators name = None"
  by (simp add: supported_calibrators_def)

text \<open>
  C9. A strategy name outside the registry makes the builder raise
  \<^verbatim>\<open>NotImplementedError\<close>; the message holds the name as given and the three supported
  names. With no name and a regression dataset the builder constructs a
  \<^verbatim>\<open>ZScalingCalibrator\<close> when the metric is \<^verbatim>\<open>stdev\<close> and a \<^verbatim>\<open>ZelikmanCalibrator\<close>
  otherwise.
\<close>

theorem builder_unknown_or_default:
  "(name \<notin> {''zscaling'', ''tscaling'', ''zelikman_interval''} \<longrightarrow>
      uncertainty_calibrator_builder lib upb (Some name) um rcm ip cdata models scalers dt lf bs nw =
        Inl (NotImplementedError
          (''Calibrator type '' @ name @ '' is not currently supported. Avalable options are: ''
             @ ''dict_keys(['zscaling', 'tscaling', 'zelikman_interval'])'')))
   \<and> uncertainty_calibrator_builder lib upb None um rcm ip cdata models scalers ''regression'' lf bs nw =
       (case (if rcm = ''stdev''
              then ZScalingCalibrator_init lib upb um ip rcm cdata models scalers ''regression'' lf bs nw
              else ZelikmanCalibrator_init lib upb um ip rcm cdata models scalers ''regression'' lf bs nw)
        of Failed e _ \<Rightarrow> Inl e | Constructed c \<Rightarrow> Inr c)"
proof (intro conjI impI)
  assume "name \<notin> {''zscaling'', ''tscaling'', ''zelikman_interval''}"
  then have "map_of supported_calibrators name = None"
    by (rule map_of_supported_None)
  then show "uncertainty_calibrator_builder lib upb (Some name) um rcm ip cdata models scalers dt lf bs nw =
        Inl (NotImplementedError
          (''Calibrator type '' @ name @ '' is not currently supported. Avalable options are: ''
             @ ''dict_keys(['zscaling', 'tscaling', 'zelikman_interval'])''))"
    unfolding uncertainty_calibrator_builder_def Let_def
    by (simp add: format_keys_supported format_method_def)
next
  have z: "map_of supported_calibrators ''zscaling'' = Some ZScalingCalibrator"
    and k: "map_of supported_calibrators ''zelikman_interval'' = Some ZelikmanCalibrator"
    by (simp_all add: supported_calibrators_def)
  show "uncertainty_calibrator_builder lib upb None um rcm ip cdata models scalers ''regression'' lf bs nw =
       (case (if rcm = ''stdev''
              then ZScalingCalibrator_init lib upb um ip rcm cdata models scalers ''regression'' lf bs nw
              else ZelikmanCalibrator_init lib upb um ip rcm cdata models scalers ''regression'' lf bs nw)
        of Failed e _ \<Rightarrow> Inl e | Constructed c \<Rightarrow> Inr c)"
    unfolding uncertainty_calibrator_builder_def Let_def
    by (simp add: z k construct_def)
qed

theorem builder_unknown_or_default_witness:
  "''not_a_method'' \<notin> {''zscaling'', ''tscaling'', ''zelikman_interval''} \<and>
   uncertainty_calibrator_builder stub_scipy
       (const_builder \<lparr>uncal_preds = [[1]], uncal_vars = [[1]]\<rparr>)
       (Some ''not_a_method'') ''ensemble'' ''stdev'' 95 \<lparr>targets = [[0]]\<rparr> [(), ()] [()]
       ''regression'' ''mse'' 50 8 =
     Inl (NotImplementedError
       (''Calibrator type not_a_method is not currently supported. Avalable options are: ''
          @ ''dict_keys(['zscaling', 'tscaling', 'zelikman_interval'])''))"
  using builder_unknown_or_default
    [where name = "''not_a_method''" and lib = stub_scipy
       and upb = "const_builder \<lparr>uncal_preds = [[1]], uncal_vars = [[1]]\<rparr>"
       and um = "''ensemble''" and ip = 95 and rcm = "''stdev''"
       and cdata = "\<lparr>targets = [[0]]\<rparr>" and models = "[(), ()]" and scalers = "[()]"
       and dt = "''regression''" and lf = "''mse''" and bs = 50 and nw = 8]
  by simp

text \<open>
  C10. With no strategy name and a dataset type other than \<^verbatim>\<open>regression\<close> no default is
  chosen: the lookup of \<^verbatim>\<open>None\<close> fails and the builder raises the
  \<^verbatim>\<open>NotImplementedError\<close> that names \<^verbatim>\<open>None\<close>; no calibrator is constructed.
\<close>

theorem builder_none_not_regression:
  "dt \<noteq> ''regression'' \<Longrightarrow>
   uncertainty_calibrator_builder lib upb None um rcm ip cdata models scalers dt lf bs nw =
     Inl (NotImplementedError
       (''Calibrator type None is not currently supported. Avalable options are: ''
          @ ''dict_keys(['zscaling', 'tscaling', 'zelikman_interval'])''))"
  unfolding uncertainty_calibrator_builder_def Let_def
  by (simp add: format_keys_supported format_method_def)

theorem builder_none_not_regression_witness:
  "''classification'' \<noteq> ''regression'' \<and>
   uncertainty_calibrator_builder stub_scipy
       (const_builder \<lparr>uncal_preds = [[1]], uncal_vars = [[1]]\<rparr>)
       None ''ensemble'' ''stdev'' 95 \<lparr>targets = [[0]]\<rparr> [(), ()] [()]
       ''classification'' ''mse'' 50 8 =
     Inl (NotImplementedError
       (''Calibrator type None is not currently supported. Avalable options are: ''
          @ ''dict_keys(['zscaling', 'tscaling', 'zelikman_interval'])''))"
  using builder_none_not_regression
    [where dt = "''classification''" and lib = stub_scipy
       and upb = "const_builder \<lparr>uncal_preds = [[1]], uncal_vars = [[1]]\<rparr>"
       and um = "''ensemble''" and ip = 95 and rcm = "''stdev''"
       and cdata = "\<lparr>targets = [[0]]\<rparr>" and models = "[(), ()]" and scalers = "[()]"
       and lf = "''mse''" and bs = 50 and nw = 8]
  by simp

section \<open>Validation at construction\<close>

text \<open>
  C6. Constructing any of the three calibrators with a dataset type other than
  \<^verbatim>\<open>regression\<close> raises \<^verbatim>\<open>ValueError\<close> out of \<^verbatim>\<open>raise_argument_errors\<close>: the object
  holds its five configuration attributes and nothing else (no predictor, no scaling, no
  label), and the result depends neither on the predictor builder nor on the optimiser,
  which are not called.
\<close>

theorem dataset_type_mismatch_fails_before_building:
  "dt \<noteq> ''regression'' \<Longrightarrow>
     ZScalingCalibrator_init lib upb um ip rcm cdata models scalers dt lf bs nw =
       Failed (ValueError ''Z Score Scaling is only compatible with regression datasets.'')
         \<lparr>cls = ZScalingCalibrator, calibration_data = cdata,
          regression_calibrator_metric = rcm, interval_percentile = ip, dataset_type = dt,
          num_models = int (length models), calibration_predictor = None, scaling = None,
          label = None\<rparr>
   \<and> TScalingCalibrator_init lib upb um ip rcm cdata models scalers dt lf bs nw =
       Failed (ValueError ''T Score Scaling is only compatible with regression datasets.'')
         \<lparr>cls = TScalingCalibrator, calibration_data = cdata,
          regression_calibrator_metric = rcm, interval_percentile = ip, dataset_type = dt,
          num_models = int (length models), calibration_predictor = None, scaling = None,
          label = None\<rparr>
   \<and> ZelikmanCalibrator_init lib upb um ip rcm cdata models scalers dt lf bs nw =
       Failed (ValueError ''Crude Scaling is only compatible with regression datasets.'')
         \<lparr>cls = ZelikmanCalibrator, calibration_data = cdata,
          regression_calibrator_metric = rcm, interval_percentile = ip, dataset_type = dt,
          num_models = int (length models), calibration_predictor = None, scaling = None,
          label = None\<rparr>"
  by (simp add: ZScalingCalibrator_init_def TScalingCalibrator_init_def
      ZelikmanCalibrator_init_def UncertaintyCalibrator_init_def raise_argument_errors_def
      ZScalingCalibrator_raise_argument_errors_def TScalingCalibrator_raise_argument_errors_def
      ZelikmanCalibrator_raise_argument_errors_def
      UncertaintyCalibrator_raise_argument_errors_def)

theorem dataset_type_mismatch_witness:
  "''classification'' \<noteq> ''regression'' \<and>
   ZScalingCalibrator_init stub_scipy
       (const_builder \<lparr>uncal_preds = [[1]], uncal_vars = [[1]]\<rparr>)
       ''ensemble'' 95 ''stdev'' \<lparr>targets = [[0]]\<rparr> [(), ()] [()] ''classification''
       ''mse'' 50 8 =
     Failed (ValueError ''Z Score Scaling is only compatible with regression datasets.'')
       \<lparr>cls = ZScalingCalibrator, calibration_data = \<lparr>targets = [[0]]\<rparr>,
        regression_calibrator_metric = ''stdev'', interval_percentile = 95,
        dataset_type = ''classification'', num_models = 2, calibration_predictor = None,
        scaling = None, label = None\<rparr>"
  using dataset_type_mismatch_fails_before_building
    [where dt = "''classification''" and lib = stub_scipy
       and upb = "const_builder \<lparr>uncal_preds = [[1]], uncal_vars = [[1]]\<rparr>"
       and um = "''ensemble''" and ip = 95 and rcm = "''stdev''"
       and cdata = "\<lparr>targets = [[0]]\<rparr>" and models = "[(), ()]" and scalers = "[()]"
       and lf = "''mse''" and bs = 50 and nw = 8]
  by simp



section \<open>Arrays of one shape\<close>

lemma is_matrix_dims:
  assumes "is_matrix n t m"
  shows "nrows m = n" and "ncols m = t" and "m \<noteq> []"
  using assms by (auto simp: is_matrix_def nrows_def ncols_def split: list.splits)


lemma is_matrix_nth:
  "is_matrix n t m \<Longrightarrow> i < n \<Longrightarrow> length (m ! i) = t"
  by (simp add: is_matrix_def list_all_length)

lemma is_matrix_np_map:
  "is_matrix n t m \<Longrightarrow> is_matrix n t (np_map f m)"
  by (simp add: is_matrix_def np_map_def list_all_iff)

lemma bdim_same [simp]: "bdim n n = Some n"
  by (simp add: bdim_def)

lemma stretch_same [simp]: "length xs = n \<Longrightarrow> stretch n xs = xs"
  by (simp add: stretch_def)

lemma map2_rows_cong:
  assumes "length a = length b"
    and "\<And>i. i < length a \<Longrightarrow> g (a ! i) (b ! i) = h (a ! i) (b ! i)"
  shows "map2 g a b = map2 h a b"
  using assms by (intro nth_equalityI) auto

lemma np_binop_same:
  assumes a: "is_matrix n t a" and b: "is_matrix n t b"
  shows "np_binop f a b = Inr (map2 (map2 f) a b)"
proof -
  have la: "length a = n" and lb: "length b = n"
    using a b by (simp_all add: is_matrix_def)
  have "map2 (\<lambda>ra rb. map2 f (stretch t ra) (stretch t rb)) a b = map2 (map2 f) a b"
  proof (rule map2_rows_cong)
    show "length a = length b" by (simp add: la lb)
  next
    fix i assume "i < length a"
    then have "length (a ! i) = t" "length (b ! i) = t"
      using a b la is_matrix_nth by auto
    then show "map2 f (stretch t (a ! i)) (stretch t (b ! i)) = map2 f (a ! i) (b ! i)"
      by simp
  qed
  then show ?thesis
    by (simp add: np_binop_def is_matrix_dims[OF a] is_matrix_dims[OF b] la lb)
qed

lemma is_matrix_map2:
  assumes a: "is_matrix n t a" and b: "is_matrix n t b"
  shows "is_matrix n t (map2 (map2 f) a b)"
  using assms
  by (auto simp: is_matrix_def list_all_length)

lemma nth_map2_rows:
  assumes a: "is_matrix n t a" and b: "is_matrix n t b" and "i < n" and "j < t"
  shows "map2 (map2 f) a b ! i ! j = f (a ! i ! j) (b ! i ! j)"
  using assms by (simp add: is_matrix_def list_all_length)

lemma length_columns [simp]: "length (columns m) = ncols m"
  by (simp add: columns_def)

lemma column_nth:
  "column m j = map (\<lambda>i. m ! i ! j) [0..<length m]"
  unfolding column_def by (rule nth_equalityI) simp_all


lemma nth_np_map:
  "i < length m \<Longrightarrow> j < length (m ! i) \<Longrightarrow> np_map f m ! i ! j = f (m ! i ! j)"
  by (simp add: np_map_def)










section \<open>The shape of the fitted scaling\<close>

lemma zscaling_calibrate_scalar:
  "ZScalingCalibrator_calibrate lib self = Inr c \<Longrightarrow> \<exists>s. c = self\<lparr>scaling := Some (Scalar s)\<rparr>"
  unfolding ZScalingCalibrator_calibrate_def
  by (simp split: option.splits sum.splits list.splits if_splits) blast+

lemma tscaling_calibrate_scalar:
  "TScalingCalibrator_calibrate lib self = Inr c \<Longrightarrow> \<exists>s. c = self\<lparr>scaling := Some (Scalar s)\<rparr>"
  unfolding TScalingCalibrator_calibrate_def Let_def
  by (simp split: option.splits sum.splits list.splits if_splits) blast+


lemma zelikman_abs_zscores:
  assumes P: "is_matrix n t P" and Y: "is_matrix n t Y" and V: "is_matrix n t V"
  shows "np_binop (/) (np_map abs (map2 (map2 (-)) P Y)) (np_sqrt V) =
           Inr (map2 (map2 (/)) (np_map abs (map2 (map2 (-)) P Y)) (np_sqrt V))"
    and "columns (map2 (map2 (/)) (np_map abs (map2 (map2 (-)) P Y)) (np_sqrt V)) =
           map (abs_zscores_of_task P Y V) [0..<t]"
proof -
  let ?D = "map2 (map2 (-)) P Y"
  let ?A = "np_map abs ?D"
  let ?S = "np_sqrt V"
  let ?Z = "map2 (map2 (/)) ?A ?S"
  have D: "is_matrix n t ?D" using P Y by (rule is_matrix_map2)
  have A: "is_matrix n t ?A" using D by (rule is_matrix_np_map)
  have S: "is_matrix n t ?S" unfolding np_sqrt_def using V by (rule is_matrix_np_map)
  have Z: "is_matrix n t ?Z" using A S by (rule is_matrix_map2)
  show "np_binop (/) ?A ?S = Inr ?Z" using A S by (rule np_binop_same)
  have lens: "length P = n" "length ?Z = n" "length ?D = n" "length V = n"
    using P Z D V by (simp_all add: is_matrix_def)
  have entry: "?Z ! i ! j = \<bar>P ! i ! j - Y ! i ! j\<bar> / sqrt (V ! i ! j)"
    if "i < n" "j < t" for i j
  proof -
    have "?Z ! i ! j = ?A ! i ! j / ?S ! i ! j"
      using A S that by (rule nth_map2_rows)
    moreover have "?A ! i ! j = \<bar>?D ! i ! j\<bar>"
      using that lens is_matrix_nth[OF D] by (simp add: nth_np_map)
    moreover have "?D ! i ! j = P ! i ! j - Y ! i ! j"
      using P Y that by (rule nth_map2_rows)
    moreover have "?S ! i ! j = sqrt (V ! i ! j)"
      unfolding np_sqrt_def using that lens is_matrix_nth[OF V] by (simp add: nth_np_map)
    ultimately show ?thesis by simp
  qed
  have "column ?Z j = abs_zscores_of_task P Y V j" if "j < t" for j
    unfolding column_nth abs_zscores_of_task_def lens
    using that by (simp add: entry)
  then show "columns ?Z = map (abs_zscores_of_task P Y V) [0..<t]"
    by (simp add: columns_def is_matrix_dims[OF Z])
qed

lemma zelikman_calibrate_eq:
  assumes cp: "calibration_predictor self = Some cp"
    and P: "is_matrix n t (uncal_preds cp)"
    and Y: "is_matrix n t (targets (calibration_data self))"
    and V: "is_matrix n t (uncal_vars cp)"
  shows "ZelikmanCalibrator_calibrate self =
     (if 0 \<le> interval_percentile self \<and> interval_percentile self \<le> 100
      then Inr (self\<lparr>scaling := Some (Array2
             [empirical_quantile_scaling (uncal_preds cp) (targets (calibration_data self))
                (uncal_vars cp) (interval_percentile self) t])\<rparr>)
      else Inl (ValueError ''Percentiles must be in the range [0, 100]''))"
  unfolding ZelikmanCalibrator_calibrate_def
  by (simp add: cp np_binop_same[OF P Y] zelikman_abs_zscores[OF P Y V]
      np_percentile_axis0_keepdims_def empirical_quantile_scaling_def)

lemma zelikman_fitted:
  assumes fit: "ZelikmanCalibrator_calibrate z0 = Inr z"
    and cp: "calibration_predictor z0 = Some cp"
    and P: "is_matrix n t (uncal_preds cp)"
    and Y: "is_matrix n t (targets (calibration_data z0))"
    and V: "is_matrix n t (uncal_vars cp)"
  shows "0 \<le> interval_percentile z0 \<and> interval_percentile z0 \<le> 100"
    and "z = z0\<lparr>scaling := Some (Array2
             [empirical_quantile_scaling (uncal_preds cp) (targets (calibration_data z0))
                (uncal_vars cp) (interval_percentile z0) t])\<rparr>"
  using fit unfolding zelikman_calibrate_eq[OF cp P Y V]
  by (simp_all split: if_splits)

lemma length_empirical_quantile_scaling [simp]:
  "length (empirical_quantile_scaling P Y V p t) = t"
  by (simp add: empirical_quantile_scaling_def)

subsection \<open>The sample calibration set\<close>

lemma sample_is_matrix:
  "is_matrix 2 2 (uncal_preds sample_predictor)"
  "is_matrix 2 2 (targets sample_data)"
  "is_matrix 2 2 (uncal_vars sample_predictor)"
  "mat_all (\<lambda>v. 0 < v) (uncal_vars sample_predictor)"
  by (simp_all add: is_matrix_def mat_all_def sample_predictor_def sample_data_def)

lemma sample_errors:
  "np_binop (-) [[1, 2], [3, 6]] [[0, 0], [0, 0]] = Inr [[1, 2], [3, 6]]"
  by (simp add: np_binop_def nrows_def ncols_def)

lemma sample_zscores:
  "np_binop (/) [[1, 2], [3, 6]] (np_sqrt [[1, 1], [1, 1]]) = Inr [[1, 2], [3, 6]]"
  by (simp add: np_binop_def nrows_def ncols_def np_sqrt_def np_map_def)

lemma sample_std:
  "np_std_axis0_keepdims [[1, 2], [3, 6]] = [[1, 2]]"
proof -
  have c: "columns [[1, 2], [3, 6]] = [[1, 3], [2, 6]]"
    by (simp add: columns_def column_def ncols_def upt_rec)
  have "np_std [1, 3] = 1"
    by (simp add: np_std_def mean_def)
  moreover have "np_std [2, 6] = 2"
  proof -
    have "np_std [2, 6] = sqrt 4" by (simp add: np_std_def mean_def)
    then show ?thesis by simp
  qed
  ultimately show ?thesis
    by (simp add: np_std_axis0_keepdims_def c)
qed

lemma sample_zscaling_stdev:
  "ZScalingCalibrator_calibrate stub_scipy (sample_self c ''stdev'') =
     Inr ((sample_self c ''stdev'')\<lparr>scaling := Some (Scalar 1)\<rparr>)"
  by (simp add: ZScalingCalibrator_calibrate_def sample_self_def sample_predictor_def
      sample_data_def sample_errors sample_zscores sample_std stub_scipy_def)

lemma sample_sem:
  "np_map (\<lambda>v. sqrt (v / real_of_int (2 - 1))) [[1, 1], [1, 1]] = np_sqrt [[1, 1], [1, 1]]"
  by (simp add: np_map_def np_sqrt_def)

lemma sample_tscaling_stdev:
  "TScalingCalibrator_calibrate stub_scipy (sample_self c ''stdev'') =
     Inr ((sample_self c ''stdev'')\<lparr>scaling := Some (Scalar 1)\<rparr>)"
  using sample_sem
  by (simp add: TScalingCalibrator_calibrate_def sample_self_def sample_predictor_def
      sample_data_def sample_errors sample_zscores sample_std stub_scipy_def)

lemma sample_quantiles:
  "empirical_quantile_scaling (uncal_preds sample_predictor) (targets sample_data)
     (uncal_vars sample_predictor) 50 2 = [2, 4]"
proof -
  have u: "[0..<2] = [0, Suc 0]" by (simp add: upt_rec)
  have a: "abs_zscores_of_task [[1, 2], [3, 6]] [[0, 0], [0, 0]] [[1, 1], [1, 1]] 0 = [1, 3]"
    by (simp add: abs_zscores_of_task_def u)
  have b: "abs_zscores_of_task [[1, 2], [3, 6]] [[0, 0], [0, 0]] [[1, 1], [1, 1]] (Suc 0) = [2, 6]"
    by (simp add: abs_zscores_of_task_def u)
  have p1: "percentile1 [1, 3] 50 = 2"
    by (simp add: percentile1_def Let_def)
  have p2: "percentile1 [2, 6] 50 = 4"
    by (simp add: percentile1_def Let_def)
  show ?thesis
    by (simp add: empirical_quantile_scaling_def sample_predictor_def sample_data_def u a b p1 p2)
qed

lemma sample_zelikman:
  "ZelikmanCalibrator_calibrate (sample_self c m) =
     Inr ((sample_self c m)\<lparr>scaling := Some (Array2 [[2, 4]])\<rparr>)"
proof -
  have cp: "calibration_predictor (sample_self c m) = Some sample_predictor"
    and d: "calibration_data (sample_self c m) = sample_data"
    and p: "interval_percentile (sample_self c m) = 50"
    by (simp_all add: sample_self_def)
  have Y: "is_matrix 2 2 (targets (calibration_data (sample_self c m)))"
    by (simp add: d sample_is_matrix)
  show ?thesis
    by (simp add: zelikman_calibrate_eq[OF cp sample_is_matrix(1) Y sample_is_matrix(3)]
        p d sample_quantiles)
qed

text \<open>
  C1. The claim fails for \<^verbatim>\<open>ZScalingCalibrator\<close> and \<^verbatim>\<open>TScalingCalibrator\<close>: whatever
  the optimiser returns and however many tasks the calibration set has, a fit that
  completes stores \<^verbatim>\<open>sol[0]\<close>, one scalar of shape \<^verbatim>\<open>()\<close>. The sibling
  \<^verbatim>\<open>ZelikmanCalibrator\<close> stores an array of shape (1, tasks).
\<close>

theorem fitted_scaling_shape:
  "(ZScalingCalibrator_calibrate lib self = Inr c \<longrightarrow>
      (\<exists>s. scaling c = Some (Scalar s) \<and> shape (Scalar s) = []))
   \<and> (TScalingCalibrator_calibrate lib self = Inr c' \<longrightarrow>
      (\<exists>s. scaling c' = Some (Scalar s) \<and> shape (Scalar s) = []))
   \<and> (ZelikmanCalibrator_calibrate self = Inr c'' \<and> calibration_predictor self = Some cp
        \<and> is_matrix n t (uncal_preds cp) \<and> is_matrix n t (targets (calibration_data self))
        \<and> is_matrix n t (uncal_vars cp) \<longrightarrow>
      (\<exists>m. scaling c'' = Some (Array2 m) \<and> shape (Array2 m) = [1, t]))"
proof (intro conjI impI)
  assume "ZScalingCalibrator_calibrate lib self = Inr c"
  then obtain s where "c = self\<lparr>scaling := Some (Scalar s)\<rparr>"
    using zscaling_calibrate_scalar by blast
  then show "\<exists>s. scaling c = Some (Scalar s) \<and> shape (Scalar s) = []" by simp
next
  assume "TScalingCalibrator_calibrate lib self = Inr c'"
  then obtain s where "c' = self\<lparr>scaling := Some (Scalar s)\<rparr>"
    using tscaling_calibrate_scalar by blast
  then show "\<exists>s. scaling c' = Some (Scalar s) \<and> shape (Scalar s) = []" by simp
next
  assume h: "ZelikmanCalibrator_calibrate self = Inr c'' \<and> calibration_predictor self = Some cp
        \<and> is_matrix n t (uncal_preds cp) \<and> is_matrix n t (targets (calibration_data self))
        \<and> is_matrix n t (uncal_vars cp)"
  then have "c'' = self\<lparr>scaling := Some (Array2
             [empirical_quantile_scaling (uncal_preds cp) (targets (calibration_data self))
                (uncal_vars cp) (interval_percentile self) t])\<rparr>"
    using zelikman_fitted(2) by blast
  then show "\<exists>m. scaling c'' = Some (Array2 m) \<and> shape (Array2 m) = [1, t]"
    by (simp add: nrows_def ncols_def)
qed

theorem fitted_scaling_shape_witness:
  "ncols (targets sample_data) = 2
   \<and> ZScalingCalibrator_calibrate stub_scipy (sample_self ZScalingCalibrator ''stdev'') =
       Inr ((sample_self ZScalingCalibrator ''stdev'')\<lparr>scaling := Some (Scalar 1)\<rparr>)
   \<and> shape (Scalar 1) = []
   \<and> TScalingCalibrator_calibrate stub_scipy (sample_self TScalingCalibrator ''stdev'') =
       Inr ((sample_self TScalingCalibrator ''stdev'')\<lparr>scaling := Some (Scalar 1)\<rparr>)
   \<and> ZelikmanCalibrator_calibrate (sample_self ZelikmanCalibrator ''stdev'') =
       Inr ((sample_self ZelikmanCalibrator ''stdev'')\<lparr>scaling := Some (Array2 [[2, 4]])\<rparr>)
   \<and> shape (Array2 [[2, 4]]) = [1, 2]"
proof -
  have cp: "calibration_predictor (sample_self ZelikmanCalibrator ''stdev'') = Some sample_predictor"
    and Y: "is_matrix 2 2 (targets (calibration_data (sample_self ZelikmanCalibrator ''stdev'')))"
    by (simp_all add: sample_self_def sample_is_matrix)
  have "\<exists>m. scaling ((sample_self ZelikmanCalibrator ''stdev'')\<lparr>scaling := Some (Array2 [[2, 4]])\<rparr>)
          = Some (Array2 m) \<and> shape (Array2 m) = [1, 2]"
    using fitted_scaling_shape
      [of stub_scipy "sample_self ZelikmanCalibrator ''stdev''" _ _
          "(sample_self ZelikmanCalibrator ''stdev'')\<lparr>scaling := Some (Array2 [[2, 4]])\<rparr>"
          sample_predictor 2 2]
      sample_zelikman cp Y sample_is_matrix
    by blast
  then have "shape (Array2 [[2, 4]]) = [1, 2]" by simp
  then show ?thesis
    using sample_zscaling_stdev sample_tscaling_stdev sample_zelikman
    by (simp add: sample_data_def ncols_def)
qed

section \<open>The empirical quantile of the absolute z-scores\<close>

lemma zelikman_calibrate_frame:
  "ZelikmanCalibrator_calibrate self = Inr c \<Longrightarrow> c = self\<lparr>scaling := scaling c\<rparr>"
  unfolding ZelikmanCalibrator_calibrate_def
  by (simp split: option.splits sum.splits) fastforce

lemma zelikman_calibrate_metric:
  "map_sum id scaling (ZelikmanCalibrator_calibrate (self\<lparr>regression_calibrator_metric := m\<rparr>)) =
   map_sum id scaling (ZelikmanCalibrator_calibrate self)"
  unfolding ZelikmanCalibrator_calibrate_def
  by (simp split: option.splits sum.splits)

lemma zelikman_init_label:
  assumes "ZelikmanCalibrator_init lib upb um ip rcm cdata models scalers dt lf bs nw = Constructed c"
  shows "label c = Some (um @ ''_zelikman_'' @ str_int ip @ ''interval'')"
    and "interval_percentile c = ip"
proof -
  from assms obtain c0 where
    c0: "UncertaintyCalibrator_init lib upb ZelikmanCalibrator um ip rcm cdata models scalers dt lf bs nw
          = Constructed c0"
    and c: "c = c0\<lparr>label := Some (um @ ''_zelikman_'' @ str_int ip @ ''interval'')\<rparr>"
    unfolding ZelikmanCalibrator_init_def by (auto split: construction.splits)
  show "label c = Some (um @ ''_zelikman_'' @ str_int ip @ ''interval'')"
    by (simp add: c)
  from c0 obtain s where fit: "ZelikmanCalibrator_calibrate s = Inr c0"
    and ip: "interval_percentile s = ip"
    unfolding UncertaintyCalibrator_init_def Let_def calibrate_def
    by (auto split: sum.splits)
  have "interval_percentile c0 = interval_percentile (s\<lparr>scaling := scaling c0\<rparr>)"
    using zelikman_calibrate_frame[OF fit] by simp
  then show "interval_percentile c = ip" by (simp add: c ip)
qed

lemma str_int_50: "str_int 50 = ''50''"
proof -
  have "str_nat 50 = str_nat 5 @ ''0''"
    by (subst str_nat.simps) simp
  also have "str_nat 5 = ''5''"
    by (subst str_nat.simps) simp
  finally show ?thesis by (simp add: str_int_def)
qed

lemma sample_zelikman_init:
  "ZelikmanCalibrator_init stub_scipy (const_builder sample_predictor) ''ensemble'' 50 ''stdev''
       sample_data [(), ()] [()] ''regression'' ''mse'' 50 8 =
     Constructed ((sample_self ZelikmanCalibrator ''stdev'')
       \<lparr>scaling := Some (Array2 [[2, 4]]), label := Some ''ensemble_zelikman_50interval''\<rparr>)"
proof -
  have fit: "ZelikmanCalibrator_calibrate
         \<lparr>cls = ZelikmanCalibrator, calibration_data = sample_data,
          regression_calibrator_metric = ''stdev'', interval_percentile = 50,
          dataset_type = ''regression'', num_models = 2,
          calibration_predictor = Some sample_predictor, scaling = None, label = None\<rparr>
        = Inr \<lparr>cls = ZelikmanCalibrator, calibration_data = sample_data,
          regression_calibrator_metric = ''stdev'', interval_percentile = 50,
          dataset_type = ''regression'', num_models = 2,
          calibration_predictor = Some sample_predictor, scaling = Some (Array2 [[2, 4]]),
          label = None\<rparr>"
    using sample_zelikman [of ZelikmanCalibrator "''stdev''"] by (simp add: sample_self_def)
  show ?thesis
    by (simp add: ZelikmanCalibrator_init_def UncertaintyCalibrator_init_def
        raise_argument_errors_def ZelikmanCalibrator_raise_argument_errors_def
        UncertaintyCalibrator_raise_argument_errors_def const_builder_def calibrate_def
        fit str_int_50 sample_self_def)
qed

text \<open>
  C4. On a calibration set of n examples and t tasks with positive raw variances,
  \<^verbatim>\<open>ZelikmanCalibrator.calibrate\<close> stores, task by task, the \<^verbatim>\<open>interval_percentile\<close>-th percentile of
  \<open>|prediction - target| / sqrt(raw variance)\<close> over the examples (and raises for a
  percentile outside [0, 100]); the stored scaling is the same for every value of
  \<^verbatim>\<open>regression_calibrator_metric\<close>; the label of every constructed
  \<^verbatim>\<open>ZelikmanCalibrator\<close> holds the decimal form of the percentile it was fitted with.
\<close>

theorem zelikman_stores_empirical_quantile:
  "(calibration_predictor self = Some cp \<and> is_matrix n t (uncal_preds cp)
      \<and> is_matrix n t (targets (calibration_data self)) \<and> is_matrix n t (uncal_vars cp)
      \<and> mat_all (\<lambda>v. 0 < v) (uncal_vars cp) \<longrightarrow>
    ZelikmanCalibrator_calibrate self =
      (if 0 \<le> interval_percentile self \<and> interval_percentile self \<le> 100
       then Inr (self\<lparr>scaling := Some (Array2
              [empirical_quantile_scaling (uncal_preds cp) (targets (calibration_data self))
                 (uncal_vars cp) (interval_percentile self) t])\<rparr>)
       else Inl (ValueError ''Percentiles must be in the range [0, 100]'')))
   \<and> map_sum id scaling
         (ZelikmanCalibrator_calibrate (self\<lparr>regression_calibrator_metric := m\<rparr>)) =
       map_sum id scaling (ZelikmanCalibrator_calibrate self)
   \<and> (ZelikmanCalibrator_init lib upb um ip rcm cdata models scalers dt lf bs nw = Constructed c \<longrightarrow>
        interval_percentile c = ip
        \<and> label c = Some (um @ ''_zelikman_'' @ str_int ip @ ''interval''))"
proof (intro conjI impI)
  assume "calibration_predictor self = Some cp \<and> is_matrix n t (uncal_preds cp)
      \<and> is_matrix n t (targets (calibration_data self)) \<and> is_matrix n t (uncal_vars cp)
      \<and> mat_all (\<lambda>v. 0 < v) (uncal_vars cp)"
  then show "ZelikmanCalibrator_calibrate self =
      (if 0 \<le> interval_percentile self \<and> interval_percentile self \<le> 100
       then Inr (self\<lparr>scaling := Some (Array2
              [empirical_quantile_scaling (uncal_preds cp) (targets (calibration_data self))
                 (uncal_vars cp) (interval_percentile self) t])\<rparr>)
       else Inl (ValueError ''Percentiles must be in the range [0, 100]''))"
    using zelikman_calibrate_eq by blast
next
  show "map_sum id scaling
         (ZelikmanCalibrator_calibrate (self\<lparr>regression_calibrator_metric := m\<rparr>)) =
       map_sum id scaling (ZelikmanCalibrator_calibrate self)"
    by (rule zelikman_calibrate_metric)
next
  assume "ZelikmanCalibrator_init lib upb um ip rcm cdata models scalers dt lf bs nw = Constructed c"
  then show "interval_percentile c = ip"
    and "label c = Some (um @ ''_zelikman_'' @ str_int ip @ ''interval'')"
    by (rule zelikman_init_label)+
qed

theorem zelikman_stores_empirical_quantile_witness:
  "calibration_predictor (sample_self ZelikmanCalibrator ''stdev'') = Some sample_predictor
   \<and> is_matrix 2 2 (uncal_preds sample_predictor)
   \<and> is_matrix 2 2 (targets (calibration_data (sample_self ZelikmanCalibrator ''stdev'')))
   \<and> is_matrix 2 2 (uncal_vars sample_predictor)
   \<and> mat_all (\<lambda>v. 0 < v) (uncal_vars sample_predictor)
   \<and> ZelikmanCalibrator_calibrate (sample_self ZelikmanCalibrator ''stdev'') =
       Inr ((sample_self ZelikmanCalibrator ''stdev'')\<lparr>scaling := Some (Array2 [[2, 4]])\<rparr>)
   \<and> map_sum id scaling (ZelikmanCalibrator_calibrate (sample_self ZelikmanCalibrator ''interval''))
       = Inr (Some (Array2 [[2, 4]]))
   \<and> ZelikmanCalibrator_init stub_scipy (const_builder sample_predictor) ''ensemble'' 50 ''stdev''
         sample_data [(), ()] [()] ''regression'' ''mse'' 50 8 =
       Constructed ((sample_self ZelikmanCalibrator ''stdev'')
         \<lparr>scaling := Some (Array2 [[2, 4]]), label := Some ''ensemble_zelikman_50interval''\<rparr>)
   \<and> label ((sample_self ZelikmanCalibrator ''stdev'')
         \<lparr>scaling := Some (Array2 [[2, 4]]), label := Some ''ensemble_zelikman_50interval''\<rparr>)
       = Some (''ensemble'' @ ''_zelikman_'' @ str_int 50 @ ''interval'')"
proof -
  have cp: "calibration_predictor (sample_self ZelikmanCalibrator ''stdev'') = Some sample_predictor"
    and Y: "is_matrix 2 2 (targets (calibration_data (sample_self ZelikmanCalibrator ''stdev'')))"
    and p: "interval_percentile (sample_self ZelikmanCalibrator ''stdev'') = 50"
    and d: "calibration_data (sample_self ZelikmanCalibrator ''stdev'') = sample_data"
    and m: "(sample_self ZelikmanCalibrator ''stdev'')\<lparr>regression_calibrator_metric := ''interval''\<rparr>
              = sample_self ZelikmanCalibrator ''interval''"
    by (simp_all add: sample_self_def sample_is_matrix)
  note inst = zelikman_stores_empirical_quantile
      [of "sample_self ZelikmanCalibrator ''stdev''" sample_predictor 2 2 "''interval''"
          stub_scipy "const_builder sample_predictor" "''ensemble''" 50 "''stdev''"
          sample_data "[(), ()]" "[()]" "''regression''" "''mse''" 50 8
          "(sample_self ZelikmanCalibrator ''stdev'')
             \<lparr>scaling := Some (Array2 [[2, 4]]), label := Some ''ensemble_zelikman_50interval''\<rparr>"]
  have 1: "ZelikmanCalibrator_calibrate (sample_self ZelikmanCalibrator ''stdev'') =
       Inr ((sample_self ZelikmanCalibrator ''stdev'')\<lparr>scaling := Some (Array2 [[2, 4]])\<rparr>)"
    using inst cp Y sample_is_matrix by (simp add: p d sample_quantiles)
  have 2: "map_sum id scaling (ZelikmanCalibrator_calibrate (sample_self ZelikmanCalibrator ''interval''))
       = Inr (Some (Array2 [[2, 4]]))"
    using inst 1 by (simp add: m)
  have 3: "label ((sample_self ZelikmanCalibrator ''stdev'')
         \<lparr>scaling := Some (Array2 [[2, 4]]), label := Some ''ensemble_zelikman_50interval''\<rparr>)
       = Some (''ensemble'' @ ''_zelikman_'' @ str_int 50 @ ''interval'')"
    using inst sample_zelikman_init by blast
  show ?thesis
    using cp Y sample_is_matrix 1 2 3 sample_zelikman_init by simp
qed

section \<open>Interval mode against stdev mode\<close>

lemma zscaling_interval_of_stdev:
  assumes "ZScalingCalibrator_calibrate lib (self\<lparr>regression_calibrator_metric := ''stdev''\<rparr>) = Inr cs"
  shows "\<exists>s. scaling cs = Some (Scalar s) \<and>
           map_sum id scaling
             (ZScalingCalibrator_calibrate lib (self\<lparr>regression_calibrator_metric := ''interval''\<rparr>)) =
           Inr (Some (Scalar
             (s * (sqrt 2 * erfinv lib (real_of_int (interval_percentile self) / 100)))))"
  using assms unfolding ZScalingCalibrator_calibrate_def
  by (simp split: option.splits sum.splits list.splits if_splits) fastforce

lemma tscaling_interval_of_stdev:
  assumes "TScalingCalibrator_calibrate lib (self\<lparr>regression_calibrator_metric := ''stdev''\<rparr>) = Inr cs"
  shows "\<exists>s. scaling cs = Some (Scalar s) \<and>
           map_sum id scaling
             (TScalingCalibrator_calibrate lib (self\<lparr>regression_calibrator_metric := ''interval''\<rparr>)) =
           Inr (Some (Scalar
             (s * t_ppf lib ((real_of_int (interval_percentile self) / 100 + 1) / 2)
                    (real_of_int (num_models self - 1)))))"
  using assms unfolding TScalingCalibrator_calibrate_def Let_def
  by (simp split: option.splits sum.splits list.splits if_splits) fastforce

lemma sample_self_cls [simp]: "cls (sample_self c m) = c"
  by (simp add: sample_self_def)

lemma sample_self_metric:
  "(sample_self c m)\<lparr>regression_calibrator_metric := m'\<rparr> = sample_self c m'"
  by (simp add: sample_self_def)

text \<open>
  C5. Fitted on the same calibration set with the same optimiser, the scaling that
  \<^verbatim>\<open>ZScalingCalibrator\<close> stores in interval mode is the scaling it stores in stdev mode
  times \<open>sqrt 2 * erfinv (p / 100)\<close>, and the one \<^verbatim>\<open>TScalingCalibrator\<close> stores is its
  stdev-mode scaling times \<open>t_ppf ((p / 100 + 1) / 2)\<close> at \<open>num_models - 1\<close> degrees of
  freedom, for the percentile \<open>p\<close> of the calibrator.
\<close>

theorem interval_scaling_is_stdev_scaling_times_quantile:
  "(ZScalingCalibrator_calibrate lib (self\<lparr>regression_calibrator_metric := ''stdev''\<rparr>) = Inr cs \<longrightarrow>
      (\<exists>s. scaling cs = Some (Scalar s) \<and>
           map_sum id scaling
             (ZScalingCalibrator_calibrate lib (self\<lparr>regression_calibrator_metric := ''interval''\<rparr>)) =
           Inr (Some (Scalar
             (s * (sqrt 2 * erfinv lib (real_of_int (interval_percentile self) / 100)))))))
   \<and> (TScalingCalibrator_calibrate lib (self\<lparr>regression_calibrator_metric := ''stdev''\<rparr>) = Inr cs' \<longrightarrow>
      (\<exists>s. scaling cs' = Some (Scalar s) \<and>
           map_sum id scaling
             (TScalingCalibrator_calibrate lib (self\<lparr>regression_calibrator_metric := ''interval''\<rparr>)) =
           Inr (Some (Scalar
             (s * t_ppf lib ((real_of_int (interval_percentile self) / 100 + 1) / 2)
                    (real_of_int (num_models self - 1)))))))"
  using zscaling_interval_of_stdev tscaling_interval_of_stdev by blast

theorem interval_scaling_witness:
  "ZScalingCalibrator_calibrate stub_scipy (sample_self ZScalingCalibrator ''stdev'') =
       Inr ((sample_self ZScalingCalibrator ''stdev'')\<lparr>scaling := Some (Scalar 1)\<rparr>)
   \<and> map_sum id scaling
         (ZScalingCalibrator_calibrate stub_scipy (sample_self ZScalingCalibrator ''interval'')) =
       Inr (Some (Scalar (1 * (sqrt 2 * erfinv stub_scipy (real_of_int 50 / 100)))))
   \<and> TScalingCalibrator_calibrate stub_scipy (sample_self TScalingCalibrator ''stdev'') =
       Inr ((sample_self TScalingCalibrator ''stdev'')\<lparr>scaling := Some (Scalar 1)\<rparr>)
   \<and> map_sum id scaling
         (TScalingCalibrator_calibrate stub_scipy (sample_self TScalingCalibrator ''interval'')) =
       Inr (Some (Scalar (1 * t_ppf stub_scipy ((real_of_int 50 / 100 + 1) / 2) (real_of_int (2 - 1)))))"
proof -
  note z = interval_scaling_is_stdev_scaling_times_quantile
      [of stub_scipy "sample_self ZScalingCalibrator ''stdev''"
          "(sample_self ZScalingCalibrator ''stdev'')\<lparr>scaling := Some (Scalar 1)\<rparr>",
       unfolded sample_self_metric]
  note t = interval_scaling_is_stdev_scaling_times_quantile
      [of stub_scipy "sample_self TScalingCalibrator ''stdev''" _
          "(sample_self TScalingCalibrator ''stdev'')\<lparr>scaling := Some (Scalar 1)\<rparr>",
       unfolded sample_self_metric]
  have p: "interval_percentile (sample_self c ''stdev'') = 50"
    and n: "num_models (sample_self c ''stdev'') = 2" for c
    by (simp_all add: sample_self_def)
  have 1: "map_sum id scaling
         (ZScalingCalibrator_calibrate stub_scipy (sample_self ZScalingCalibrator ''interval'')) =
       Inr (Some (Scalar (1 * (sqrt 2 * erfinv stub_scipy (real_of_int 50 / 100)))))"
    using z sample_zscaling_stdev [of ZScalingCalibrator] by (simp add: p)
  have 2: "map_sum id scaling
         (TScalingCalibrator_calibrate stub_scipy (sample_self TScalingCalibrator ''interval'')) =
       Inr (Some (Scalar (1 * t_ppf stub_scipy ((real_of_int 50 / 100 + 1) / 2) (real_of_int (2 - 1)))))"
    using t sample_tscaling_stdev [of TScalingCalibrator] by (simp add: p n)
  show ?thesis
    using 1 2 sample_zscaling_stdev [of ZScalingCalibrator]
      sample_tscaling_stdev [of TScalingCalibrator]
    by simp
qed

section \<open>Constructed calibrators\<close>





subsection \<open>The sample calibrators, constructed\<close>



section \<open>What \<^verbatim>\<open>apply_calibration\<close> returns\<close>






subsection \<open>The sample evaluation predictor\<close>








section \<open>Scaling the raw variances\<close>




section \<open>The sign of the calibrated spread\<close>









subsection \<open>An optimiser's solution can be negative\<close>

text \<open>
  The Gaussian objective reads its argument through \<^verbatim>\<open>scaler_values ** 2\<close> only, so it
  takes the same value at a solution and at its negation.
\<close>

lemma ZScaling_objective_even:
  "ZScaling_objective vars errors (map uminus scaler_values) =
     ZScaling_objective vars errors scaler_values"
  by (simp add: ZScaling_objective_def o_def)

text \<open>
  On the one-task calibration set (errors 1 and -1, raw variances 1) the objective is
  \<open>ln (2 pi s\<^sup>2) + 1 / s\<^sup>2\<close>, and -1 minimises it.
\<close>

lemma one_task_objective:
  "ZScaling_objective [[1], [1]] [[1], [- 1]] [s] = Inr [ln (2 * pi * s ^ 2) + 1 / s ^ 2]"
proof -
  have c: "columns [[a], [b]] = [[a, b]]" for a b :: real
    by (simp add: columns_def column_def ncols_def)
  show ?thesis
    by (simp add: ZScaling_objective_def np_binop_def nrows_def ncols_def bdim_def stretch_def
        np_map_def np_sum_axis0_def c)
qed

lemma one_task_minimum:
  assumes "s \<noteq> 0"
  shows "ln (2 * pi * (- 1) ^ 2) + 1 / (- 1) ^ 2 \<le> ln (2 * pi * s ^ 2) + 1 / s ^ 2"
proof -
  define u where "u = s ^ 2"
  have u: "0 < u" using assms by (simp add: u_def)
  have "ln (1 / u) \<le> 1 / u - 1"
    using u by (intro ln_le_minus_one) simp
  then have "1 \<le> ln u + 1 / u"
    using u by (simp add: ln_div)
  moreover have "ln (2 * pi * u) = ln (2 * pi) + ln u"
    using u by (simp add: ln_mult)
  ultimately show ?thesis
    by (simp add: u_def)
qed




end
